theory Spec2Isabelle
  imports Main
begin

section \<open>Service-account messages of the admin client\<close>

text \<open>
  The development follows two commands of the client: \<open>admin user svcacct add\<close>
  (cmd/admin-user-svcacct-add.go) and \<open>admin user disable\<close>. Both check their
  arguments, open an admin client for the alias, call the server once and print a
  message, either as a line for a person or as a JSON document.
\<close>

subsection \<open>The message\<close>

text \<open>
  The struct \<open>svcAcctMessage\<close>. The field \<open>op\<close> is unexported and carries no JSON tag;
  \<open>Status\<close> is tagged \<open>json:"status"\<close>, every other field \<open>json:"...,omitempty"\<close>.
\<close>

record svcAcctMessage =
  op :: string
  Status :: string
  AccessKey :: string
  SecretKey :: string
  ParentUser :: string
  ImpliedPolicy :: bool
  Policy :: string
  AccountStatus :: string
  MemberOf :: "string list"

definition accessFieldMaxLen :: nat where
  "accessFieldMaxLen = 20"

subsection \<open>The console\<close>

text \<open>
  The console and colour libraries are outside the repository. A colour is the pair of
  escape sequences written before and after a text. \<open>Colorize\<close> returns the text as it
  is when the output is no terminal or the theme has no colour for the tag, and encloses
  it in the colour's sequences otherwise; \<open>SetColor\<close> enters a colour in the theme.
\<close>

type_synonym colour = "string \<times> string"

record console =
  isTerminal :: bool
  Theme :: "string \<Rightarrow> colour option"

definition Colorize :: "console \<Rightarrow> string \<Rightarrow> string \<Rightarrow> string" where
  "Colorize con tag text =
     (if isTerminal con then
        (case Theme con tag of
           Some (before, after) \<Rightarrow> before @ text @ after
         | None \<Rightarrow> text)
      else text)"

definition SetColor :: "console \<Rightarrow> string \<Rightarrow> colour \<Rightarrow> console" where
  "SetColor con tag c = con\<lparr>Theme := (Theme con)(tag \<mapsto> c)\<rparr>"

text \<open>\<open>color.New(color.FgGreen)\<close>: select green, and reset after the text.\<close>

definition FgGreen :: colour where
  "FgGreen = ([CHR 0x1B, CHR ''['', CHR ''3'', CHR ''2'', CHR ''m''],
              [CHR 0x1B, CHR ''['', CHR ''0'', CHR ''m''])"

subsection \<open>The table of the listing\<close>

text \<open>
  \<open>Field{"AccessKey", accessFieldMaxLen}\<close> and \<open>newPrettyTable("  ", ...)\<close> are written
  at the call site; the table's declaration and its method \<open>buildRow\<close> are not part of
  the two files. The table is kept as the separator and columns it is built from, and
  \<open>buildRow\<close> is a parameter of the rendering (a field of \<open>world\<close> below). What the
  method does for the table of the listing is written out in \<open>buildRow_AccessKey\<close>.
\<close>

datatype Field = Field string nat

datatype PrettyTable = PrettyTable string "Field list"

definition newPrettyTable :: "string \<Rightarrow> Field list \<Rightarrow> PrettyTable" where
  "newPrettyTable separator cols = PrettyTable separator cols"

subsection \<open>The row of the listing\<close>

text \<open>
  A string is its bytes. The formatting verbs of \<open>fmt\<close> count in runes: a rune is a
  UTF-8 sequence of one to four bytes, and a byte that starts no valid sequence is a
  rune of its own. \<open>in_range lo hi bs\<close>: the string has a first byte, and it lies
  between the bounds. \<open>rune_size b bs\<close> is the number of bytes of the first rune of
  \<open>b # bs\<close>: the first byte decides the length and the bounds of the second byte, and
  every later byte is a continuation byte (0x80 to 0xBF).
\<close>

definition in_range :: "nat \<Rightarrow> nat \<Rightarrow> string \<Rightarrow> bool" where
  "in_range lo hi bs =
     (case bs of [] \<Rightarrow> False | b # rest \<Rightarrow> lo \<le> of_char b \<and> of_char b \<le> hi)"

definition rune_size :: "char \<Rightarrow> string \<Rightarrow> nat" where
  "rune_size b bs =
     (let x = (of_char b :: nat) in
      if x < 0xC2 then 1
      else if x < 0xE0 then
        (if in_range 0x80 0xBF bs then 2 else 1)
      else if x < 0xF0 then
        (if in_range (if x = 0xE0 then 0xA0 else 0x80) (if x = 0xED then 0x9F else 0xBF) bs
            \<and> in_range 0x80 0xBF (drop 1 bs)
         then 3 else 1)
      else if x < 0xF5 then
        (if in_range (if x = 0xF0 then 0x90 else 0x80) (if x = 0xF4 then 0x8F else 0xBF) bs
            \<and> in_range 0x80 0xBF (drop 1 bs) \<and> in_range 0x80 0xBF (drop 2 bs)
         then 4 else 1)
      else 1)"

text \<open>\<open>utf8.RuneCountInString\<close>, and the first \<open>n\<close> runes of a string.\<close>

fun rune_count :: "string \<Rightarrow> nat" where
  "rune_count [] = 0"
| "rune_count (b # bs) = Suc (rune_count (drop (rune_size b bs - 1) bs))"

fun take_runes :: "nat \<Rightarrow> string \<Rightarrow> string" where
  "take_runes 0 s = []"
| "take_runes (Suc n) [] = []"
| "take_runes (Suc n) (b # bs) =
     b # take (rune_size b bs - 1) bs @ take_runes n (drop (rune_size b bs - 1) bs)"

text \<open>
  \<open>fmt.Sprintf("%-n.ns", s)\<close>: the precision keeps the first \<open>n\<close> runes of the string,
  the width with the minus flag fills up with blanks on the right to \<open>n\<close> runes.
\<close>

definition Sprintf_pad :: "nat \<Rightarrow> string \<Rightarrow> string" where
  "Sprintf_pad n s =
     (let t = take_runes n s in t @ replicate (n - rune_count t) CHR '' '')"

text \<open>
  Modelled from the spec: the method \<open>buildRow\<close> of the table is not under src/. The
  spec gives every operation one fixed textual template and has no words for this one;
  the definition follows the method of the package, for the table of the listing: one
  column, named AccessKey, of the width \<open>accessFieldMaxLen\<close>, and one content. A
  content of more bytes than the width is cut to the width less three bytes and gets
  three dots; the field is formatted with the verb \<open>%-20.20s\<close> (the width written
  twice) and coloured under the name of the column. With one column no separator is
  written.
\<close>

definition AccessKey_cell :: "string \<Rightarrow> string" where
  "AccessKey_cell k =
     (let dots = ''...'';
          fieldContent =
            (if length k > accessFieldMaxLen
             then take (accessFieldMaxLen - length dots) k @ dots
             else k)
      in Sprintf_pad accessFieldMaxLen fieldContent)"

definition buildRow_AccessKey :: "console \<Rightarrow> string \<Rightarrow> string" where
  "buildRow_AccessKey con k = Colorize con ''AccessKey'' (AccessKey_cell k)"

subsection \<open>Requests, replies and the collaborators\<close>

datatype perror = ErrInvalidArgument | Err string

type_synonym bytes = "nat list"

text \<open>\<open>madmin.AddServiceAccountReq\<close>; a nil \<open>Policy\<close> is \<open>None\<close>.\<close>

record AddServiceAccountReq =
  req_Policy :: "bytes option"
  req_AccessKey :: string
  req_SecretKey :: string
  req_TargetUser :: string

record Credentials =
  cred_AccessKey :: string
  cred_SecretKey :: string

datatype AccountStatus = AccountEnabled | AccountDisabled

text \<open>An admin client is known by the alias it was opened for.\<close>

datatype AdminClient = AdminClient string

text \<open>
  A JSON document is kept as its members in the order they are written; the values
  of this struct are strings, a boolean and a list of strings. The indentation, the
  escaping of characters and the colouring of the text are not modelled.
\<close>

datatype jvalue = JString string | JBool bool | JArray "string list"

type_synonym json_object = "(string \<times> jvalue) list"

text \<open>
  The type \<open>userMessage\<close> that the disable command fills is declared in another file of
  the package, not under src/; the two fields are the ones the command sets.
\<close>

record userMessage =
  user_op :: string
  user_AccessKey :: string

text \<open>
  Everything a command reaches outside itself: the console, the output mode
  (\<open>globalJSON\<close>), the file system, the policy parser and the server behind the admin
  client; and the parts of the package that are not in the two files: the table
  builder, the method \<open>JSON\<close> of \<open>userMessage\<close> and the cases of its method \<open>String\<close>
  that the disable command does not reach.
\<close>

record world =
  the_console :: console
  globalJSON :: bool
  buildRow :: "console \<Rightarrow> PrettyTable \<Rightarrow> string list \<Rightarrow> string"
  userMessage_String_rest :: "console \<Rightarrow> userMessage \<Rightarrow> string"
  userMessage_JSON :: "userMessage \<Rightarrow> json_object"
  newAdminClient :: "string \<Rightarrow> perror + AdminClient"
  ReadFile :: "string \<Rightarrow> perror + bytes"
  ParseConfig :: "bytes \<Rightarrow> perror option"
  AddServiceAccount :: "AdminClient \<Rightarrow> AddServiceAccountReq \<Rightarrow> perror + Credentials"
  SetUserStatus :: "AdminClient \<Rightarrow> string \<Rightarrow> AccountStatus \<Rightarrow> perror option"

subsection \<open>Rendering for a person\<close>

text \<open>\<open>strings.Join\<close>.\<close>

fun Join :: "string list \<Rightarrow> string \<Rightarrow> string" where
  "Join [] sep = []"
| "Join [x] sep = x"
| "Join (x # y # ys) sep = x @ sep @ Join (y # ys) sep"

text \<open>
  \<open>svcAcctMessage.String\<close>: a switch on \<open>op\<close> with seven cases, and the empty string
  after it. \<open>fmt.Sprintf\<close> with \<open>%s\<close> puts the string in as it is.
\<close>

definition String :: "world \<Rightarrow> svcAcctMessage \<Rightarrow> string" where
  "String w u =
     (if op u = ''ls'' then
        buildRow w (the_console w)
          (newPrettyTable ''  '' [Field ''AccessKey'' accessFieldMaxLen]) [AccessKey u]
      else if op u = ''info'' then
        (let policyField = (if ImpliedPolicy u then ''implied'' else ''embedded'') in
         Colorize (the_console w) ''UserMessage''
           (Join [''AccessKey: '' @ AccessKey u,
                  ''ParentUser: '' @ ParentUser u,
                  ''Status: '' @ AccountStatus u,
                  ''Policy: '' @ policyField] [CHR 0x0A]))
      else if op u = ''rm'' then
        Colorize (the_console w) ''UserMessage''
          (''Removed service account `'' @ AccessKey u @ ''` successfully.'')
      else if op u = ''disable'' then
        Colorize (the_console w) ''UserMessage''
          (''Disabled service account `'' @ AccessKey u @ ''` successfully.'')
      else if op u = ''enable'' then
        Colorize (the_console w) ''UserMessage''
          (''Enabled service account `'' @ AccessKey u @ ''` successfully.'')
      else if op u = ''add'' then
        Colorize (the_console w) ''UserMessage''
          (''Access Key: '' @ AccessKey u @ [CHR 0x0A] @ ''Secret Key: '' @ SecretKey u)
      else if op u = ''set'' then
        Colorize (the_console w) ''UserMessage''
          (''Edited service account `'' @ AccessKey u @ ''` successfully.'')
      else [])"

subsection \<open>Rendering as JSON\<close>

text \<open>
  Modelled from the spec: the encoder \<open>MarshalIndent\<close> (package pkg/colorjson) is not
  under src/. The spec calls the JSON form field-sparse, with fields absent rather than
  null or empty; which fields may be absent is written in the struct's tags in the
  source: a field tagged \<open>omitempty\<close> is left out when it holds the empty value of its
  type (the empty string, \<open>false\<close>, a list of no elements), \<open>status\<close> has no such tag
  and is always written, and \<open>op\<close> is unexported and never written.
\<close>

definition MarshalIndent :: "svcAcctMessage \<Rightarrow> json_object" where
  "MarshalIndent u =
     [(''status'', JString (Status u))]
     @ (if AccessKey u = [] then [] else [(''accessKey'', JString (AccessKey u))])
     @ (if SecretKey u = [] then [] else [(''secretKey'', JString (SecretKey u))])
     @ (if ParentUser u = [] then [] else [(''parentUser'', JString (ParentUser u))])
     @ (if ImpliedPolicy u then [(''impliedPolicy'', JBool True)] else [])
     @ (if Policy u = [] then [] else [(''policy'', JString (Policy u))])
     @ (if AccountStatus u = [] then [] else [(''accountStatus'', JString (AccountStatus u))])
     @ (if MemberOf u = [] then [] else [(''memberOf'', JArray (MemberOf u))])"

text \<open>\<open>svcAcctMessage.JSON\<close>: the receiver is a copy; its status is set, then it is encoded.\<close>

definition JSON :: "svcAcctMessage \<Rightarrow> json_object" where
  "JSON u = MarshalIndent (u\<lparr>Status := ''success''\<rparr>)"

definition keys :: "json_object \<Rightarrow> string list" where
  "keys doc = map fst doc"

text \<open>The value of a member, \<open>None\<close> when the key is absent.\<close>

definition member_of :: "json_object \<Rightarrow> string \<Rightarrow> jvalue option" where
  "member_of doc k = map_of doc k"

subsection \<open>A method call with a value receiver\<close>

text \<open>
  Both methods are declared on \<open>svcAcctMessage\<close>, not on a pointer to it: a call
  copies the caller's message into a new variable \<open>u\<close> of the method, and the body
  works on \<open>u\<close>. The store is the list of the message variables that exist, a variable
  is its index. \<open>call_JSON\<close> runs the body of \<open>JSON\<close> on the copy: the assignment
  \<open>u.Status = "success"\<close>, then the encoding of \<open>u\<close>.
\<close>

type_synonym store = "svcAcctMessage list"

definition call_JSON :: "store \<Rightarrow> nat \<Rightarrow> json_object \<times> store" where
  "call_JSON s a =
     (let u = length s;
          s1 = s @ [s ! a];
          s2 = s1[u := (s1 ! u)\<lparr>Status := ''success''\<rparr>]
      in (MarshalIndent (s2 ! u), s2))"

definition call_String :: "world \<Rightarrow> store \<Rightarrow> nat \<Rightarrow> string \<times> store" where
  "call_String w s a =
     (let u = length s;
          s1 = s @ [s ! a]
      in (String w (s1 ! u), s1))"

section \<open>The commands\<close>

subsection \<open>Arguments, messages and outcomes\<close>

text \<open>
  The \<open>cli.Context\<close> of a command: its positional arguments and the string flags that
  were given. \<open>ctx.String\<close> of a flag that was not given is the empty string, and
  \<open>args.Get\<close> past the last argument is the empty string.
\<close>

record Context =
  Args :: "string list"
  flags :: "(string \<times> string) list"

definition flag_String :: "Context \<Rightarrow> string \<Rightarrow> string" where
  "flag_String ctx name = (case map_of (flags ctx) name of Some v \<Rightarrow> v | None \<Rightarrow> [])"

definition Get :: "string list \<Rightarrow> nat \<Rightarrow> string" where
  "Get args n = (if n < length args then args ! n else [])"

text \<open>
  Modelled from the spec: the method \<open>String\<close> of \<open>userMessage\<close> is not under src/.
  The spec words the text of a disabled account for a service account, which is the
  template of \<open>svcAcctMessage\<close>, another type. The command that fills a
  \<open>userMessage\<close> here is \<open>disable user\<close> (its usage, its example and its error text
  all say user), and the text it prints for the tag \<open>disable\<close> is
  "Disabled user `K` successfully.", coloured as a user message. That case is the
  only one modelled; the other cases are the parameter \<open>userMessage_String_rest\<close>.
\<close>

definition userMessage_String :: "world \<Rightarrow> userMessage \<Rightarrow> string" where
  "userMessage_String w m =
     (if user_op m = ''disable'' then
        Colorize (the_console w) ''UserMessage''
          (''Disabled user `'' @ user_AccessKey m @ ''` successfully.'')
      else userMessage_String_rest w (the_console w) m)"

text \<open>The interface \<open>message\<close> that \<open>printMsg\<close> takes, with the two types that implement it here.\<close>

datatype message = SvcAcctMessage svcAcctMessage | UserMessage userMessage

fun message_String :: "world \<Rightarrow> message \<Rightarrow> string" where
  "message_String w (SvcAcctMessage u) = String w u"
| "message_String w (UserMessage m) = userMessage_String w m"

fun message_JSON :: "world \<Rightarrow> message \<Rightarrow> json_object" where
  "message_JSON w (SvcAcctMessage u) = JSON u"
| "message_JSON w (UserMessage m) = userMessage_JSON w m"

datatype printed = HumanOut string | JsonOut json_object

text \<open>
  Modelled from the spec: \<open>printMsg\<close> is not under src/. The spec: the message is
  rendered through the output mode selected for the process, human-readable or JSON.
\<close>

definition printMsg :: "world \<Rightarrow> message \<Rightarrow> printed" where
  "printMsg w m = (if globalJSON w then JsonOut (message_JSON w m) else HumanOut (message_String w m))"

text \<open>
  How a command ends. It prints its message and returns nil (exit status 0); or
  \<open>cli.ShowCommandHelpAndExit\<close> prints the help of the named command and exits with
  the given status; or \<open>fatalIf\<close> is given an error.

  Modelled from the spec: \<open>fatalIf\<close> is not under src/. The spec: with an error the
  process ends there, with a single diagnostic message and a non-zero exit status;
  with no error the command goes on.
\<close>

datatype outcome =
    Printed message printed
  | Fatal string perror
  | HelpAndExit string nat

fun exits_nonzero :: "outcome \<Rightarrow> bool" where
  "exits_nonzero (Printed m out) = False"
| "exits_nonzero (Fatal msg e) = True"
| "exits_nonzero (HelpAndExit cmd code) = (code \<noteq> 0)"

fun prints_help :: "outcome \<Rightarrow> bool" where
  "prints_help (Printed m out) = False"
| "prints_help (Fatal msg e) = False"
| "prints_help (HelpAndExit cmd code) = True"

fun is_Fatal :: "outcome \<Rightarrow> bool" where
  "is_Fatal (Fatal msg e) = True"
| "is_Fatal other = False"

text \<open>The calls a command makes to its collaborators, in the order it makes them.\<close>

datatype call =
    NewAdminClientCall string
  | ReadFileCall string
  | ParseConfigCall bytes
  | AddServiceAccountCall AdminClient AddServiceAccountReq
  | SetUserStatusCall AdminClient string AccountStatus

fun is_remote :: "call \<Rightarrow> bool" where
  "is_remote (AddServiceAccountCall c r) = True"
| "is_remote (SetUserStatusCall c u st) = True"
| "is_remote other = False"

type_synonym run = "call list \<times> outcome"

subsection \<open>svcacct add\<close>

text \<open>
  \<open>checkAdminUserSvcAcctAddSyntax\<close>: \<open>None\<close> when the command goes on. (The trace that
  \<open>errInvalidArgument().Trace\<close> attaches to the error is left out.)
\<close>

definition checkAdminUserSvcAcctAddSyntax :: "Context \<Rightarrow> outcome option" where
  "checkAdminUserSvcAcctAddSyntax ctx =
     (if length (Args ctx) \<noteq> 2 then
        Some (Fatal ''Incorrect number of arguments for user svcacct add command.''
                ErrInvalidArgument)
      else None)"

text \<open>
  The block of \<open>mainAdminUserSvcAcctAdd\<close> that fills \<open>buf\<close> (\<open>var buf []byte\<close> to the
  end of the \<open>if policyPath != ""\<close>): the calls it makes, and the outcome it ends the
  process with or the value of \<open>buf\<close> after it.
\<close>

definition policy_block :: "world \<Rightarrow> string \<Rightarrow> call list \<times> (outcome + bytes option)" where
  "policy_block w policyPath =
     (if policyPath \<noteq> [] then
        (case ReadFile w policyPath of
           Inl e \<Rightarrow>
             ([ReadFileCall policyPath], Inl (Fatal ''Unable to open the policy document.'' e))
         | Inr buf \<Rightarrow>
             (case ParseConfig w buf of
                Some e \<Rightarrow>
                  ([ReadFileCall policyPath, ParseConfigCall buf],
                   Inl (Fatal ''Unable to parse the policy document.'' e))
              | None \<Rightarrow>
                  ([ReadFileCall policyPath, ParseConfigCall buf], Inr (Some buf))))
      else ([], Inr None))"

definition mainAdminUserSvcAcctAdd :: "world \<Rightarrow> Context \<Rightarrow> run" where
  "mainAdminUserSvcAcctAdd w ctx =
     (case checkAdminUserSvcAcctAddSyntax ctx of
        Some out \<Rightarrow> ([], out)
      | None \<Rightarrow>
          (let args = Args ctx;
               aliasedURL = Get args 0;
               user = Get args 1;
               accessKey = flag_String ctx ''access-key'';
               secretKey = flag_String ctx ''secret-key'';
               policyPath = flag_String ctx ''policy''
           in
           case newAdminClient w aliasedURL of
             Inl err \<Rightarrow>
               ([NewAdminClientCall aliasedURL],
                Fatal ''Unable to initialize admin connection.'' err)
           | Inr client \<Rightarrow>
               (case policy_block w policyPath of
                  (cs, Inl out) \<Rightarrow> (NewAdminClientCall aliasedURL # cs, out)
                | (cs, Inr buf) \<Rightarrow>
                    (let opts = \<lparr>req_Policy = buf, req_AccessKey = accessKey,
                                 req_SecretKey = secretKey, req_TargetUser = user\<rparr>
                     in
                     case AddServiceAccount w client opts of
                       Inl e \<Rightarrow>
                         (NewAdminClientCall aliasedURL # cs
                            @ [AddServiceAccountCall client opts],
                          Fatal ''Unable to add a new service account'' e)
                     | Inr creds \<Rightarrow>
                         (let m = SvcAcctMessage
                                \<lparr>op = ''add'', Status = [],
                                 AccessKey = cred_AccessKey creds,
                                 SecretKey = cred_SecretKey creds,
                                 ParentUser = [], ImpliedPolicy = False, Policy = [],
                                 AccountStatus = ''enabled'', MemberOf = []\<rparr>
                          in (NewAdminClientCall aliasedURL # cs
                                @ [AddServiceAccountCall client opts],
                              Printed m (printMsg w m)))))))"

subsection \<open>user disable\<close>

definition checkAdminUserDisableSyntax :: "Context \<Rightarrow> outcome option" where
  "checkAdminUserDisableSyntax ctx =
     (if length (Args ctx) \<noteq> 2 then Some (HelpAndExit ''disable'' 1) else None)"

definition mainAdminUserDisable :: "world \<Rightarrow> Context \<Rightarrow> run" where
  "mainAdminUserDisable w ctx =
     (case checkAdminUserDisableSyntax ctx of
        Some out \<Rightarrow> ([], out)
      | None \<Rightarrow>
          (let w1 = w\<lparr>the_console := SetColor (the_console w) ''UserMessage'' FgGreen\<rparr>;
               args = Args ctx;
               aliasedURL = Get args 0
           in
           case newAdminClient w1 aliasedURL of
             Inl err \<Rightarrow>
               ([NewAdminClientCall aliasedURL],
                Fatal ''Unable to initialize admin connection.'' err)
           | Inr client \<Rightarrow>
               (case SetUserStatus w1 client (Get args 1) AccountDisabled of
                  Some e \<Rightarrow>
                    ([NewAdminClientCall aliasedURL,
                      SetUserStatusCall client (Get args 1) AccountDisabled],
                     Fatal ''Unable to disable user'' e)
                | None \<Rightarrow>
                    (let m = UserMessage \<lparr>user_op = ''disable'', user_AccessKey = Get args 1\<rparr>
                     in ([NewAdminClientCall aliasedURL,
                          SetUserStatusCall client (Get args 1) AccountDisabled],
                         Printed m (printMsg w1 m))))))"

subsection \<open>A world to run the commands in\<close>

text \<open>
  A terminal with an empty theme; a simple table builder (not the one of the package)
  that cuts or fills every content to the width of its column; a file system with two files, of which the parser
  accepts \<open>policy.json\<close> only; a server that echoes the keys it is given and makes up
  a pair otherwise. The parts of \<open>userMessage\<close> that are parameters give nothing.
\<close>

fun fit :: "Field \<Rightarrow> string \<Rightarrow> string" where
  "fit (Field name n) c = take n c @ replicate (n - length c) CHR '' ''"

definition sample_row :: "console \<Rightarrow> PrettyTable \<Rightarrow> string list \<Rightarrow> string" where
  "sample_row con t cs = (case t of PrettyTable sep cols \<Rightarrow> Join (map2 fit cols cs) sep)"

definition sample_world :: world where
  "sample_world =
     \<lparr>the_console = \<lparr>isTerminal = True, Theme = (\<lambda>tag. None)\<rparr>,
      globalJSON = False,
      buildRow = sample_row,
      userMessage_String_rest = (\<lambda>con m. []),
      userMessage_JSON = (\<lambda>m. []),
      newAdminClient = (\<lambda>alias. if alias = ''myminio'' then Inr (AdminClient alias)
                                else Inl (Err ''no such alias'')),
      ReadFile = (\<lambda>path. if path = ''policy.json'' then Inr [123, 125]
                          else if path = ''bad.json'' then Inr [123]
                          else Inl (Err ''no such file'')),
      ParseConfig = (\<lambda>b. if b = [123, 125] then None else Some (Err ''malformed policy'')),
      AddServiceAccount = (\<lambda>c r. if req_TargetUser r = [] then Inl (Err ''no such user'')
                                  else if req_AccessKey r = [] \<or> req_SecretKey r = []
                                  then Inr \<lparr>cred_AccessKey = ''AK1'', cred_SecretKey = ''SK1''\<rparr>
                                  else Inr \<lparr>cred_AccessKey = req_AccessKey r,
                                            cred_SecretKey = req_SecretKey r\<rparr>),
      SetUserStatus = (\<lambda>c user st. if user = [] then Some (Err ''no such user'') else None)\<rparr>"

subsection \<open>Vocabulary of the properties\<close>

text \<open>The tags that the switch of \<open>String\<close> has a case for.\<close>

definition known_ops :: "string list" where
  "known_ops = [''ls'', ''info'', ''rm'', ''disable'', ''enable'', ''add'', ''set'']"

text \<open>
  What the rendering of a listing needs of the table builder, which is not part of the
  two files: a table of one column of positive width gives a row that is not empty for
  one content.
\<close>

definition row_never_empty :: "world \<Rightarrow> bool" where
  "row_never_empty w =
     (\<forall>con sep name n c.
        0 < n \<longrightarrow> buildRow w con (PrettyTable sep [Field name n]) [c] \<noteq> [])"

text \<open>
  The table builder of the world is the method of the package, where the listing
  calls it: on the table of the one column AccessKey and one content.
\<close>

definition package_rows :: "world \<Rightarrow> bool" where
  "package_rows w =
     (\<forall>con k. buildRow w con
                 (newPrettyTable ''  '' [Field ''AccessKey'' accessFieldMaxLen]) [k]
               = buildRow_AccessKey con k)"

text \<open>Every byte of a string is an ASCII character.\<close>

definition ascii :: "string \<Rightarrow> bool" where
  "ascii s = list_all (\<lambda>c. of_char c < (128::nat)) s"

text \<open>The policy file at a path cannot be read, or what it holds does not parse.\<close>

definition policy_invalid :: "world \<Rightarrow> string \<Rightarrow> bool" where
  "policy_invalid w p =
     (case ReadFile w p of
        Inl e \<Rightarrow> True
      | Inr buf \<Rightarrow> (case ParseConfig w buf of Some e \<Rightarrow> True | None \<Rightarrow> False))"

text \<open>A message with the given tag, for the account \<open>foobar\<close>.\<close>

definition sample_message :: "string \<Rightarrow> svcAcctMessage" where
  "sample_message t =
     \<lparr>op = t, Status = [], AccessKey = ''foobar'', SecretKey = ''s3cr3t'',
      ParentUser = ''alice'', ImpliedPolicy = True, Policy = [], AccountStatus = ''off'',
      MemberOf = []\<rparr>"

text \<open>The sample world with the table builder of the package, on a console that is no terminal.\<close>

definition listing_world :: world where
  "listing_world =
     sample_world
       \<lparr>the_console := \<lparr>isTerminal = False, Theme = (\<lambda>tag. None)\<rparr>,
        buildRow := (\<lambda>con t cs. case cs of [k] \<Rightarrow> buildRow_AccessKey con k | _ \<Rightarrow> [])\<rparr>"

section \<open>Lemmas on the building blocks\<close>

subsection \<open>Runes\<close>

lemma rune_count_le: "rune_count s \<le> length s"
  by (induction s rule: rune_count.induct) auto

lemma take_runes_all: "rune_count s \<le> n \<Longrightarrow> take_runes n s = s"
proof (induction n s rule: take_runes.induct)
  case (1 s)
  then show ?case by (cases s) auto
next
  case (2 n)
  then show ?case by simp
next
  case (3 n b bs)
  then show ?case by simp
qed

text \<open>A blank is no continuation byte: blanks after a string leave its runes as they are.\<close>

lemma in_range_pad:
  assumes "128 \<le> lo"
  shows "in_range lo hi (drop i (bs @ replicate m CHR '' '')) = in_range lo hi (drop i bs)"
proof (cases "i < length bs")
  case True
  then obtain c cs where "drop i bs = c # cs"
    by (metis drop_eq_Nil leD list.exhaust)
  with True show ?thesis by (simp add: in_range_def)
next
  case False
  then have "drop i bs = []" by simp
  moreover have "\<not> in_range lo hi (replicate k CHR '' '')" for k
    using assms by (cases k) (auto simp add: in_range_def)
  ultimately show ?thesis using False by (simp add: in_range_def)
qed

lemma in_range_pad0:
  "128 \<le> lo \<Longrightarrow> in_range lo hi (bs @ replicate m CHR '' '') = in_range lo hi bs"
  using in_range_pad [of lo hi 0 bs m] by simp

lemma rune_size_pad: "rune_size b (bs @ replicate m CHR '' '') = rune_size b bs"
  by (simp add: rune_size_def Let_def in_range_pad in_range_pad0)

lemma in_range_length: "in_range lo hi (drop i bs) \<Longrightarrow> i < length bs"
proof (rule ccontr)
  assume a: "in_range lo hi (drop i bs)" and "\<not> i < length bs"
  then have "drop i bs = []" by simp
  with a show False by (simp add: in_range_def)
qed

lemma in_range_length0: "in_range lo hi bs \<Longrightarrow> 0 < length bs"
  using in_range_length [of lo hi 0 bs] by simp

lemma rune_size_fits: "rune_size b bs - 1 \<le> length bs"
proof -
  have 1: "in_range lo hi bs \<Longrightarrow> Suc 0 \<le> length bs" for lo hi
    using in_range_length0 [of lo hi bs] by (cases bs) simp_all
  have 2: "in_range lo hi (drop 1 bs) \<Longrightarrow> 2 \<le> length bs" for lo hi
    using in_range_length [of lo hi 1 bs] by simp
  have 3: "in_range lo hi (drop 2 bs) \<Longrightarrow> 3 \<le> length bs" for lo hi
    using in_range_length [of lo hi 2 bs] by simp
  show ?thesis
    unfolding rune_size_def Let_def
    using 1 2 3 by (auto split: if_splits)
qed

lemma rune_count_spaces: "rune_count (replicate m CHR '' '') = m"
  by (induction m) (simp_all add: rune_size_def)

lemma rune_count_pad: "rune_count (s @ replicate m CHR '' '') = rune_count s + m"
proof (induction s rule: rune_count.induct)
  case 1
  then show ?case by (simp add: rune_count_spaces)
next
  case (2 b bs)
  then show ?case
    using rune_size_fits [of b bs] by (simp add: rune_size_pad)
qed

lemma Sprintf_pad_fits:
  assumes "rune_count s \<le> n"
  shows "Sprintf_pad n s = s @ replicate (n - rune_count s) CHR '' ''"
    and "rune_count (Sprintf_pad n s) = n"
  using assms by (simp_all add: Sprintf_pad_def Let_def take_runes_all rune_count_pad)

lemma rune_count_ascii: "ascii s \<Longrightarrow> rune_count s = length s"
  by (induction s) (simp_all add: ascii_def rune_size_def)

text \<open>The content of the cell, after the cut, has at most 20 bytes, so at most 20 runes.\<close>

lemma AccessKey_cell_short:
  assumes "length k \<le> 20"
  shows "AccessKey_cell k = k @ replicate (20 - rune_count k) CHR '' ''"
    and "rune_count (AccessKey_cell k) = 20"
proof -
  have fits: "rune_count k \<le> 20" using rune_count_le [of k] assms by simp
  have cell: "AccessKey_cell k = Sprintf_pad 20 k"
    using assms by (simp add: AccessKey_cell_def accessFieldMaxLen_def)
  show "AccessKey_cell k = k @ replicate (20 - rune_count k) CHR '' ''"
    using cell Sprintf_pad_fits(1) [OF fits] by simp
  show "rune_count (AccessKey_cell k) = 20"
    using cell Sprintf_pad_fits(2) [OF fits] by simp
qed

lemma AccessKey_cell_long:
  assumes "20 < length k"
  shows "AccessKey_cell k
      = take 17 k @ ''...'' @ replicate (20 - rune_count (take 17 k @ ''...'')) CHR '' ''"
    and "rune_count (AccessKey_cell k) = 20"
proof -
  have "length (take 17 k @ ''...'') = 20" using assms by simp
  then have fits: "rune_count (take 17 k @ ''...'') \<le> 20"
    using rune_count_le [of "take 17 k @ ''...''"] by simp
  have cell: "AccessKey_cell k = Sprintf_pad 20 (take 17 k @ ''...'')"
    using assms by (simp add: AccessKey_cell_def accessFieldMaxLen_def)
  show "AccessKey_cell k
      = take 17 k @ ''...'' @ replicate (20 - rune_count (take 17 k @ ''...'')) CHR '' ''"
    using cell Sprintf_pad_fits(1) [OF fits] by simp
  show "rune_count (AccessKey_cell k) = 20"
    using cell Sprintf_pad_fits(2) [OF fits] by simp
qed

lemma AccessKey_cell_ascii:
  assumes "ascii k"
  shows "length (AccessKey_cell k) = 20"
proof (cases "length k \<le> 20")
  case True
  with assms show ?thesis
    by (simp add: AccessKey_cell_short rune_count_ascii)
next
  case False
  then have long: "20 < length k" by simp
  have "ascii (take 17 k @ ''...'')"
    using assms by (auto simp add: ascii_def list_all_iff dest: in_set_takeD)
  then have "rune_count (take 17 k @ ''...'') = 20"
    using long by (simp add: rune_count_ascii)
  with long show ?thesis
    by (simp add: AccessKey_cell_long)
qed

subsection \<open>The console, the arguments and the add command\<close>

lemma Colorize_nonempty: "text \<noteq> [] \<Longrightarrow> Colorize con tag text \<noteq> []"
  by (simp add: Colorize_def split: option.splits prod.splits)

lemma Colorize_plain: "\<not> isTerminal con \<Longrightarrow> Colorize con tag text = text"
  by (simp add: Colorize_def)

lemma sample_rows: "row_never_empty sample_world"
  by (simp add: row_never_empty_def sample_world_def sample_row_def)

lemma Get_two:
  "length args = 2 \<Longrightarrow> Get args 0 = args ! 0 \<and> Get args (Suc 0) = args ! Suc 0"
  by (simp add: Get_def)

lemma flag_String_no_flags: "flags ctx = [] \<Longrightarrow> flag_String ctx name = []"
  by (simp add: flag_String_def)

lemma policy_block_no_path: "policy_block w [] = ([], Inr None)"
  by (simp add: policy_block_def)

text \<open>The calls of a run of \<open>svcacct add\<close> that gets as far as the request.\<close>

lemma add_calls:
  assumes "length (Args ctx) = 2"
    and "newAdminClient w (Args ctx ! 0) = Inr c"
    and "policy_block w (flag_String ctx ''policy'') = (cs, Inr buf)"
  shows "fst (mainAdminUserSvcAcctAdd w ctx)
      = NewAdminClientCall (Args ctx ! 0) # cs
        @ [AddServiceAccountCall c
             \<lparr>req_Policy = buf, req_AccessKey = flag_String ctx ''access-key'',
              req_SecretKey = flag_String ctx ''secret-key'', req_TargetUser = Args ctx ! 1\<rparr>]"
  using assms
  by (simp add: mainAdminUserSvcAcctAdd_def checkAdminUserSvcAcctAddSyntax_def Get_two
      Let_def split: sum.splits)

lemma add_success:
  assumes "length (Args ctx) = 2"
    and "newAdminClient w (Args ctx ! 0) = Inr c"
    and "policy_block w (flag_String ctx ''policy'') = (cs, Inr buf)"
    and "AddServiceAccount w c
           \<lparr>req_Policy = buf, req_AccessKey = flag_String ctx ''access-key'',
            req_SecretKey = flag_String ctx ''secret-key'', req_TargetUser = Args ctx ! 1\<rparr>
         = Inr creds"
  shows "snd (mainAdminUserSvcAcctAdd w ctx)
      = Printed
          (SvcAcctMessage
             \<lparr>op = ''add'', Status = [], AccessKey = cred_AccessKey creds,
              SecretKey = cred_SecretKey creds, ParentUser = [], ImpliedPolicy = False,
              Policy = [], AccountStatus = ''enabled'', MemberOf = []\<rparr>)
          (printMsg w
             (SvcAcctMessage
                \<lparr>op = ''add'', Status = [], AccessKey = cred_AccessKey creds,
                 SecretKey = cred_SecretKey creds, ParentUser = [], ImpliedPolicy = False,
                 Policy = [], AccountStatus = ''enabled'', MemberOf = []\<rparr>))"
  using assms
  by (simp add: mainAdminUserSvcAcctAdd_def checkAdminUserSvcAcctAddSyntax_def Get_two Let_def)

text \<open>Every message that \<open>svcacct add\<close> prints has this form.\<close>

lemma add_printed_form:
  assumes "snd (mainAdminUserSvcAcctAdd w ctx) = Printed m out"
  shows "\<exists>k s. m = SvcAcctMessage
             \<lparr>op = ''add'', Status = [], AccessKey = k, SecretKey = s, ParentUser = [],
              ImpliedPolicy = False, Policy = [], AccountStatus = ''enabled'',
              MemberOf = []\<rparr>
           \<and> out = printMsg w m"
  using assms
  by (auto simp add: mainAdminUserSvcAcctAdd_def checkAdminUserSvcAcctAddSyntax_def
      policy_block_def Let_def
      split: sum.splits option.splits if_splits prod.splits)

lemma accountStatus_member:
  "AccountStatus u = ''enabled'' \<Longrightarrow>
   member_of (JSON u) ''accountStatus'' = Some (JString ''enabled'')"
  by (simp add: JSON_def MarshalIndent_def member_of_def)

section \<open>Properties of the rendering\<close>

text \<open>
  C7: whatever the fields of a message hold when it is built, its JSON rendering has
  the member \<open>status\<close>, and the value of that member is the string "success".
\<close>

theorem JSON_status_success:
  "member_of (JSON u) ''status'' = Some (JString ''success'')
   \<and> ''status'' \<in> set (keys (JSON u))
   \<and> hd (JSON u) = (''status'', JString ''success'')"
  by (simp add: JSON_def MarshalIndent_def member_of_def keys_def)

text \<open>
  C1, as the claim states it: the JSON of an add message would have no
  \<open>accountStatus\<close> key. The command's own run in JSON mode prints a document that
  has it.
\<close>

theorem add_json_has_accountStatus:
  "snd (mainAdminUserSvcAcctAdd (sample_world\<lparr>globalJSON := True\<rparr>)
         \<lparr>Args = [''myminio'', ''foobar''], flags = []\<rparr>)
   = Printed
       (SvcAcctMessage
          \<lparr>op = ''add'', Status = [], AccessKey = ''AK1'', SecretKey = ''SK1'',
           ParentUser = [], ImpliedPolicy = False, Policy = [],
           AccountStatus = ''enabled'', MemberOf = []\<rparr>)
       (JsonOut [(''status'', JString ''success''), (''accessKey'', JString ''AK1''),
                 (''secretKey'', JString ''SK1''), (''accountStatus'', JString ''enabled'')])
   \<and> ''accountStatus'' \<in> set (keys
         [(''status'', JString ''success''), (''accessKey'', JString ''AK1''),
          (''secretKey'', JString ''SK1''), (''accountStatus'', JString ''enabled'')])"
  by (simp add: mainAdminUserSvcAcctAdd_def checkAdminUserSvcAcctAddSyntax_def Get_def
      flag_String_def sample_world_def policy_block_def printMsg_def JSON_def
      MarshalIndent_def Let_def keys_def)

text \<open>
  C1, amended: the JSON rendering leaves out exactly the optional fields (accessKey,
  secretKey, parentUser, impliedPolicy, policy, accountStatus, memberOf) that hold the
  empty value of their type, and always writes \<open>status\<close>; the operation tag has no part
  in it. For the message that the add command builds, the keys are \<open>status\<close> and
  \<open>accountStatus\<close>, with \<open>accessKey\<close> and \<open>secretKey\<close> when the returned keys are not
  empty: there is no \<open>memberOf\<close>, \<open>policy\<close>, \<open>parentUser\<close> or \<open>impliedPolicy\<close> key.
\<close>

theorem JSON_keys_by_emptiness:
  "set (keys (JSON u)) =
     {''status''}
     \<union> (if AccessKey u = [] then {} else {''accessKey''})
     \<union> (if SecretKey u = [] then {} else {''secretKey''})
     \<union> (if ParentUser u = [] then {} else {''parentUser''})
     \<union> (if ImpliedPolicy u then {''impliedPolicy''} else {})
     \<union> (if Policy u = [] then {} else {''policy''})
     \<union> (if AccountStatus u = [] then {} else {''accountStatus''})
     \<union> (if MemberOf u = [] then {} else {''memberOf''})
   \<and> JSON (u\<lparr>op := t\<rparr>) = JSON u
   \<and> set (keys (JSON \<lparr>op = ''add'', Status = [], AccessKey = k, SecretKey = s,
                        ParentUser = [], ImpliedPolicy = False, Policy = [],
                        AccountStatus = ''enabled'', MemberOf = []\<rparr>))
       = {''status'', ''accountStatus''}
         \<union> (if k = [] then {} else {''accessKey''})
         \<union> (if s = [] then {} else {''secretKey''})"
  by (auto simp add: JSON_def MarshalIndent_def keys_def)

text \<open>
  C2: for a message whose tag is one of ls, info, rm, disable, enable, add, set, the
  human rendering is not empty; for any other tag it is the empty string. The rendering
  is a function of the message and the console, so it is deterministic and never
  fails. For \<open>ls\<close> the text is the row of the table builder, and it is not empty when
  that builder never gives an empty row for one column and one content.
\<close>

theorem String_known_unknown:
  "(op u \<in> set known_ops \<and> op u \<noteq> ''ls'' \<longrightarrow> String w u \<noteq> [])
   \<and> (op u = ''ls'' \<and> row_never_empty w \<longrightarrow> String w u \<noteq> [])
   \<and> (op u \<notin> set known_ops \<longrightarrow> String w u = [])"
proof (intro conjI impI)
  assume "op u \<in> set known_ops \<and> op u \<noteq> ''ls''"
  then show "String w u \<noteq> []"
    by (auto simp add: known_ops_def String_def Let_def Colorize_nonempty)
next
  assume a: "op u = ''ls'' \<and> row_never_empty w"
  then have "buildRow w (the_console w) (PrettyTable ''  '' [Field ''AccessKey'' 20])
               [AccessKey u] \<noteq> []"
    unfolding row_never_empty_def by simp
  with a show "String w u \<noteq> []"
    by (simp add: String_def newPrettyTable_def accessFieldMaxLen_def)
next
  assume "op u \<notin> set known_ops"
  then show "String w u = []"
    by (simp add: known_ops_def String_def)
qed

theorem String_known_unknown_witness:
  "String sample_world (sample_message ''info'') \<noteq> []
   \<and> String sample_world (sample_message ''ls'') \<noteq> []
   \<and> String sample_world (sample_message ''frobnicate'') = []"
proof -
  have 1: "String sample_world (sample_message ''info'') \<noteq> []"
    using String_known_unknown [of "sample_message ''info''" sample_world]
    by (simp add: sample_message_def known_ops_def)
  have 2: "String sample_world (sample_message ''ls'') \<noteq> []"
    using String_known_unknown [of "sample_message ''ls''" sample_world] sample_rows
    by (simp add: sample_message_def)
  have 3: "String sample_world (sample_message ''frobnicate'') = []"
    using String_known_unknown [of "sample_message ''frobnicate''" sample_world]
    by (simp add: sample_message_def known_ops_def)
  from 1 2 3 show ?thesis by simp
qed

section \<open>Properties of the commands\<close>

text \<open>
  C3, as the claim states it: the policy document would be resolved before the
  connection is opened, and a policy file that does not parse would stop the command
  with no collaborator called. The run opens the admin client first, then reads the
  file and hands it to the parser: three calls.
\<close>

theorem bad_policy_after_connection:
  "fst (mainAdminUserSvcAcctAdd sample_world
          \<lparr>Args = [''myminio'', ''foobar''], flags = [(''policy'', ''bad.json'')]\<rparr>)
   = [NewAdminClientCall ''myminio'', ReadFileCall ''bad.json'', ParseConfigCall [123]]"
  by (simp add: mainAdminUserSvcAcctAdd_def checkAdminUserSvcAcctAddSyntax_def Get_def
      flag_String_def sample_world_def policy_block_def Let_def)

text \<open>
  C3, amended: the add command opens the connection to the alias first and reads and
  parses the policy document after it. With two arguments and a policy path whose file
  cannot be read or does not parse, the command ends in a fatal error, its first call
  is the opening of the admin client, and no remote call (AddServiceAccount) is
  attempted; when the connection succeeds, the second call is the read of the policy
  file.
\<close>

theorem invalid_policy_no_remote_call:
  assumes "length (Args ctx) = 2"
    and "flag_String ctx ''policy'' \<noteq> []"
    and "policy_invalid w (flag_String ctx ''policy'')"
  shows "filter is_remote (fst (mainAdminUserSvcAcctAdd w ctx)) = []
    \<and> is_Fatal (snd (mainAdminUserSvcAcctAdd w ctx))
    \<and> hd (fst (mainAdminUserSvcAcctAdd w ctx)) = NewAdminClientCall (Args ctx ! 0)
    \<and> (\<forall>c. newAdminClient w (Args ctx ! 0) = Inr c \<longrightarrow>
          take 2 (fst (mainAdminUserSvcAcctAdd w ctx))
            = [NewAdminClientCall (Args ctx ! 0), ReadFileCall (flag_String ctx ''policy'')])"
  using assms
  by (auto simp add: mainAdminUserSvcAcctAdd_def checkAdminUserSvcAcctAddSyntax_def Get_def
      policy_block_def policy_invalid_def Let_def split: sum.splits option.splits)

theorem invalid_policy_no_remote_call_witness:
  "filter is_remote
     (fst (mainAdminUserSvcAcctAdd sample_world
             \<lparr>Args = [''myminio'', ''foobar''], flags = [(''policy'', ''bad.json'')]\<rparr>)) = []
   \<and> is_Fatal
       (snd (mainAdminUserSvcAcctAdd sample_world
               \<lparr>Args = [''myminio'', ''foobar''], flags = [(''policy'', ''bad.json'')]\<rparr>))
   \<and> take 2
       (fst (mainAdminUserSvcAcctAdd sample_world
               \<lparr>Args = [''myminio'', ''foobar''], flags = [(''policy'', ''bad.json'')]\<rparr>))
     = [NewAdminClientCall ''myminio'', ReadFileCall ''bad.json'']"
proof -
  let ?ctx = "\<lparr>Args = [''myminio'', ''foobar''], flags = [(''policy'', ''bad.json'')]\<rparr>"
  have len: "length (Args ?ctx) = 2" by simp
  have path: "flag_String ?ctx ''policy'' \<noteq> []" by (simp add: flag_String_def)
  have bad: "policy_invalid sample_world (flag_String ?ctx ''policy'')"
    by (simp add: policy_invalid_def flag_String_def sample_world_def)
  have conn: "newAdminClient sample_world (Args ?ctx ! 0) = Inr (AdminClient ''myminio'')"
    by (simp add: sample_world_def)
  from invalid_policy_no_remote_call [OF len path bad] conn show ?thesis
    by (simp add: flag_String_def)
qed

text \<open>
  C4: with an alias and an account, a connection that opens and no policy path, the add
  command sends one request: its TargetUser is the second argument, its AccessKey and
  SecretKey are the values of the two flags as they were given (nothing checks them),
  and its Policy is nil; with no flag at all both keys are the empty string. When the
  server answers with credentials and the output is for a person, the text printed is
  "Access Key: K" and "Secret Key: S" on two lines, for the returned K and S, handed
  to the console's colouring; on a console that is no terminal it is that text as it is.
\<close>

theorem add_request_and_output:
  assumes "length (Args ctx) = 2"
    and "newAdminClient w (Args ctx ! 0) = Inr c"
    and "flag_String ctx ''policy'' = []"
  shows "fst (mainAdminUserSvcAcctAdd w ctx)
      = [NewAdminClientCall (Args ctx ! 0),
         AddServiceAccountCall c
           \<lparr>req_Policy = None, req_AccessKey = flag_String ctx ''access-key'',
            req_SecretKey = flag_String ctx ''secret-key'', req_TargetUser = Args ctx ! 1\<rparr>]
    \<and> (flags ctx = [] \<longrightarrow>
         fst (mainAdminUserSvcAcctAdd w ctx)
           = [NewAdminClientCall (Args ctx ! 0),
              AddServiceAccountCall c
                \<lparr>req_Policy = None, req_AccessKey = [], req_SecretKey = [],
                 req_TargetUser = Args ctx ! 1\<rparr>])
    \<and> (\<forall>creds.
          AddServiceAccount w c
            \<lparr>req_Policy = None, req_AccessKey = flag_String ctx ''access-key'',
             req_SecretKey = flag_String ctx ''secret-key'', req_TargetUser = Args ctx ! 1\<rparr>
            = Inr creds \<and> \<not> globalJSON w \<longrightarrow>
          (\<exists>m. snd (mainAdminUserSvcAcctAdd w ctx)
             = Printed m
                 (HumanOut (Colorize (the_console w) ''UserMessage''
                    (''Access Key: '' @ cred_AccessKey creds @ [CHR 0x0A]
                      @ ''Secret Key: '' @ cred_SecretKey creds))))
          \<and> (\<not> isTerminal (the_console w) \<longrightarrow>
               (\<exists>m. snd (mainAdminUserSvcAcctAdd w ctx)
                  = Printed m
                      (HumanOut (''Access Key: '' @ cred_AccessKey creds @ [CHR 0x0A]
                         @ ''Secret Key: '' @ cred_SecretKey creds)))))"
proof -
  have pb: "policy_block w (flag_String ctx ''policy'') = ([], Inr None)"
    using assms(3) by (simp add: policy_block_no_path)
  have calls: "fst (mainAdminUserSvcAcctAdd w ctx)
      = [NewAdminClientCall (Args ctx ! 0),
         AddServiceAccountCall c
           \<lparr>req_Policy = None, req_AccessKey = flag_String ctx ''access-key'',
            req_SecretKey = flag_String ctx ''secret-key'', req_TargetUser = Args ctx ! 1\<rparr>]"
    using add_calls [OF assms(1) assms(2) pb] by simp
  have none: "flags ctx = [] \<longrightarrow>
         fst (mainAdminUserSvcAcctAdd w ctx)
           = [NewAdminClientCall (Args ctx ! 0),
              AddServiceAccountCall c
                \<lparr>req_Policy = None, req_AccessKey = [], req_SecretKey = [],
                 req_TargetUser = Args ctx ! 1\<rparr>]"
    using calls by (simp add: flag_String_no_flags)
  have out: "\<forall>creds.
          AddServiceAccount w c
            \<lparr>req_Policy = None, req_AccessKey = flag_String ctx ''access-key'',
             req_SecretKey = flag_String ctx ''secret-key'', req_TargetUser = Args ctx ! 1\<rparr>
            = Inr creds \<and> \<not> globalJSON w \<longrightarrow>
          (\<exists>m. snd (mainAdminUserSvcAcctAdd w ctx)
             = Printed m
                 (HumanOut (Colorize (the_console w) ''UserMessage''
                    (''Access Key: '' @ cred_AccessKey creds @ [CHR 0x0A]
                      @ ''Secret Key: '' @ cred_SecretKey creds))))
          \<and> (\<not> isTerminal (the_console w) \<longrightarrow>
               (\<exists>m. snd (mainAdminUserSvcAcctAdd w ctx)
                  = Printed m
                      (HumanOut (''Access Key: '' @ cred_AccessKey creds @ [CHR 0x0A]
                         @ ''Secret Key: '' @ cred_SecretKey creds))))"
  proof (intro allI impI)
    fix creds
    assume a: "AddServiceAccount w c
            \<lparr>req_Policy = None, req_AccessKey = flag_String ctx ''access-key'',
             req_SecretKey = flag_String ctx ''secret-key'', req_TargetUser = Args ctx ! 1\<rparr>
            = Inr creds \<and> \<not> globalJSON w"
    then have ok: "AddServiceAccount w c
            \<lparr>req_Policy = None, req_AccessKey = flag_String ctx ''access-key'',
             req_SecretKey = flag_String ctx ''secret-key'', req_TargetUser = Args ctx ! 1\<rparr>
            = Inr creds" by simp
    show "(\<exists>m. snd (mainAdminUserSvcAcctAdd w ctx)
             = Printed m
                 (HumanOut (Colorize (the_console w) ''UserMessage''
                    (''Access Key: '' @ cred_AccessKey creds @ [CHR 0x0A]
                      @ ''Secret Key: '' @ cred_SecretKey creds))))
          \<and> (\<not> isTerminal (the_console w) \<longrightarrow>
               (\<exists>m. snd (mainAdminUserSvcAcctAdd w ctx)
                  = Printed m
                      (HumanOut (''Access Key: '' @ cred_AccessKey creds @ [CHR 0x0A]
                         @ ''Secret Key: '' @ cred_SecretKey creds))))"
      using add_success [OF assms(1) assms(2) pb ok] a
      by (simp add: printMsg_def String_def Colorize_plain)
  qed
  from calls none out show ?thesis by blast
qed

theorem add_request_and_output_witness:
  "fst (mainAdminUserSvcAcctAdd sample_world \<lparr>Args = [''myminio'', ''foobar''], flags = []\<rparr>)
     = [NewAdminClientCall ''myminio'',
        AddServiceAccountCall (AdminClient ''myminio'')
          \<lparr>req_Policy = None, req_AccessKey = [], req_SecretKey = [],
           req_TargetUser = ''foobar''\<rparr>]
   \<and> (\<exists>m. snd (mainAdminUserSvcAcctAdd sample_world
                 \<lparr>Args = [''myminio'', ''foobar''], flags = []\<rparr>)
          = Printed m (HumanOut (''Access Key: AK1'' @ [CHR 0x0A] @ ''Secret Key: SK1'')))"
proof -
  let ?ctx = "\<lparr>Args = [''myminio'', ''foobar''], flags = []\<rparr>"
  have len: "length (Args ?ctx) = 2" by simp
  have conn: "newAdminClient sample_world (Args ?ctx ! 0) = Inr (AdminClient ''myminio'')"
    by (simp add: sample_world_def)
  have nopol: "flag_String ?ctx ''policy'' = []" by (simp add: flag_String_def)
  have reply: "AddServiceAccount sample_world (AdminClient ''myminio'')
      \<lparr>req_Policy = None, req_AccessKey = flag_String ?ctx ''access-key'',
       req_SecretKey = flag_String ?ctx ''secret-key'', req_TargetUser = Args ?ctx ! 1\<rparr>
      = Inr \<lparr>cred_AccessKey = ''AK1'', cred_SecretKey = ''SK1''\<rparr>"
    by (simp add: sample_world_def flag_String_def)
  have human: "\<not> globalJSON sample_world" by (simp add: sample_world_def)
  have plain: "Colorize (the_console sample_world) ''UserMessage'' t = t" for t
    by (simp add: Colorize_def sample_world_def)
  from add_request_and_output [OF len conn nopol] reply human show ?thesis
    by (simp add: flag_String_def plain)
qed




text \<open>
  C6, as the claim states it: with a wrong number of arguments both commands would
  print the command's help. The add command, given one argument, ends in the fatal
  error of its syntax check, which prints no help.
\<close>

theorem add_one_argument_no_help:
  "mainAdminUserSvcAcctAdd sample_world \<lparr>Args = [''myminio''], flags = []\<rparr>
     = ([], Fatal ''Incorrect number of arguments for user svcacct add command.''
              ErrInvalidArgument)
   \<and> \<not> prints_help
         (snd (mainAdminUserSvcAcctAdd sample_world \<lparr>Args = [''myminio''], flags = []\<rparr>))"
  by (simp add: mainAdminUserSvcAcctAdd_def checkAdminUserSvcAcctAddSyntax_def)

text \<open>
  C6, amended: for both commands a number of positional arguments other than 2 ends
  the process with a non-zero exit status before any collaborator is called. The
  disable command prints the help of the command and exits with status 1; the add
  command ends in the fatal invalid-argument error "Incorrect number of arguments for
  user svcacct add command." and prints no help.
\<close>

theorem wrong_count_stops_first:
  assumes "length (Args ctx) \<noteq> 2"
  shows "mainAdminUserDisable w ctx = ([], HelpAndExit ''disable'' 1)
    \<and> mainAdminUserSvcAcctAdd w ctx
        = ([], Fatal ''Incorrect number of arguments for user svcacct add command.''
                 ErrInvalidArgument)
    \<and> exits_nonzero (snd (mainAdminUserDisable w ctx))
    \<and> exits_nonzero (snd (mainAdminUserSvcAcctAdd w ctx))
    \<and> prints_help (snd (mainAdminUserDisable w ctx))
    \<and> \<not> prints_help (snd (mainAdminUserSvcAcctAdd w ctx))"
  using assms
  by (simp add: mainAdminUserDisable_def mainAdminUserSvcAcctAdd_def
      checkAdminUserDisableSyntax_def checkAdminUserSvcAcctAddSyntax_def)

theorem wrong_count_stops_first_witness:
  "mainAdminUserDisable sample_world \<lparr>Args = [''myminio'', ''foobar'', ''extra''], flags = []\<rparr>
     = ([], HelpAndExit ''disable'' 1)
   \<and> fst (mainAdminUserSvcAcctAdd sample_world
            \<lparr>Args = [''myminio'', ''foobar'', ''extra''], flags = []\<rparr>) = []
   \<and> exits_nonzero
       (snd (mainAdminUserSvcAcctAdd sample_world
               \<lparr>Args = [''myminio'', ''foobar'', ''extra''], flags = []\<rparr>))"
proof -
  have three: "length (Args \<lparr>Args = [''myminio'', ''foobar'', ''extra''], flags = []\<rparr>) \<noteq> 2"
    by simp
  from wrong_count_stops_first [OF three, of sample_world] show ?thesis
    by simp
qed

text \<open>
  C8: rendering never changes the message it is called on. The caller's message is a
  variable of the store; a call of \<open>JSON\<close> or \<open>String\<close> leaves that variable, and
  every variable that existed before the call, as it was, although the copy that
  \<open>JSON\<close> encodes has its status set to "success". The results are those of the two
  methods on the caller's message.
\<close>

theorem rendering_leaves_message:
  assumes "a < length s"
  shows "snd (call_JSON s a) ! a = s ! a
   \<and> take (length s) (snd (call_JSON s a)) = s
   \<and> fst (call_JSON s a) = JSON (s ! a)
   \<and> Status (last (snd (call_JSON s a))) = ''success''
   \<and> snd (call_String w s a) ! a = s ! a
   \<and> take (length s) (snd (call_String w s a)) = s
   \<and> fst (call_String w s a) = String w (s ! a)"
  using assms
  by (simp add: call_JSON_def call_String_def Let_def JSON_def nth_append)

theorem rendering_leaves_message_witness:
  "snd (call_JSON [sample_message ''add''] 0) ! 0 = sample_message ''add''
   \<and> Status (sample_message ''add'') = []
   \<and> Status (last (snd (call_JSON [sample_message ''add''] 0))) = ''success''
   \<and> snd (call_String sample_world [sample_message ''add''] 0) ! 0 = sample_message ''add''"
proof -
  have inside: "0 < length [sample_message ''add'']" by simp
  from rendering_leaves_message [OF inside, of sample_world] show ?thesis
    by (simp add: sample_message_def)
qed

text \<open>
  C9: whenever the add command prints a message, that message has the operation tag
  \<open>add\<close> and the account status "enabled", whatever the server returned; its JSON
  rendering has the member \<open>accountStatus\<close> with the value "enabled", and in JSON mode
  that rendering is what is printed.
\<close>

theorem add_message_enabled:
  assumes "snd (mainAdminUserSvcAcctAdd w ctx) = Printed m out"
  shows "\<exists>u. m = SvcAcctMessage u \<and> op u = ''add'' \<and> AccountStatus u = ''enabled''
     \<and> member_of (JSON u) ''accountStatus'' = Some (JString ''enabled'')
     \<and> (if globalJSON w then out = JsonOut (JSON u) else out = HumanOut (String w u))"
proof -
  from add_printed_form [OF assms] obtain k s where
    m: "m = SvcAcctMessage
             \<lparr>op = ''add'', Status = [], AccessKey = k, SecretKey = s, ParentUser = [],
              ImpliedPolicy = False, Policy = [], AccountStatus = ''enabled'',
              MemberOf = []\<rparr>"
    and out: "out = printMsg w m" by blast
  let ?u = "\<lparr>op = ''add'', Status = [], AccessKey = k, SecretKey = s, ParentUser = [],
              ImpliedPolicy = False, Policy = [], AccountStatus = ''enabled'',
              MemberOf = []\<rparr>"
  have 1: "m = SvcAcctMessage ?u" by (rule m)
  have 2: "op ?u = ''add''" by simp
  have 3: "AccountStatus ?u = ''enabled''" by simp
  have 4: "member_of (JSON ?u) ''accountStatus'' = Some (JString ''enabled'')"
    by (rule accountStatus_member) simp
  have 5: "if globalJSON w then out = JsonOut (JSON ?u) else out = HumanOut (String w ?u)"
    using out m by (simp add: printMsg_def)
  from 1 2 3 4 5 show ?thesis by blast
qed

theorem add_message_enabled_witness:
  "\<exists>u. snd (mainAdminUserSvcAcctAdd (sample_world\<lparr>globalJSON := True\<rparr>)
             \<lparr>Args = [''myminio'', ''foobar''],
              flags = [(''access-key'', ''mykey''), (''secret-key'', ''mysecret''),
                       (''policy'', ''policy.json'')]\<rparr>)
         = Printed (SvcAcctMessage u) (JsonOut (JSON u))
       \<and> AccessKey u = ''mykey''
       \<and> AccountStatus u = ''enabled''
       \<and> member_of (JSON u) ''accountStatus'' = Some (JString ''enabled'')"
proof -
  let ?w = "sample_world\<lparr>globalJSON := True\<rparr>"
  let ?ctx = "\<lparr>Args = [''myminio'', ''foobar''],
              flags = [(''access-key'', ''mykey''), (''secret-key'', ''mysecret''),
                       (''policy'', ''policy.json'')]\<rparr>"
  let ?u = "\<lparr>op = ''add'', Status = [], AccessKey = ''mykey'', SecretKey = ''mysecret'',
            ParentUser = [], ImpliedPolicy = False, Policy = [],
            AccountStatus = ''enabled'', MemberOf = []\<rparr>"
  have run: "snd (mainAdminUserSvcAcctAdd ?w ?ctx)
      = Printed (SvcAcctMessage ?u) (JsonOut (JSON ?u))"
    by (simp add: mainAdminUserSvcAcctAdd_def checkAdminUserSvcAcctAddSyntax_def Get_def
        flag_String_def sample_world_def policy_block_def printMsg_def Let_def)
  from add_message_enabled [OF run] have
    "member_of (JSON ?u) ''accountStatus'' = Some (JString ''enabled'')"
    by simp
  with run show ?thesis by (intro exI [of _ ?u]) simp
qed

text \<open>
  C10: for a message with the operation tag \<open>ls\<close> the human rendering is one row of
  the table with the single column AccessKey of width 20 (\<open>accessFieldMaxLen\<close>),
  built from the access key alone: two such messages with the same access key render
  alike, whatever their other fields hold. With the table builder of the package the
  row is one cell of exactly 20 characters (runes), coloured under the name of the
  column: an access key of at most 20 bytes followed by blanks, or the first 17 bytes
  of a longer one, three dots and blanks; for an ASCII key the cell has exactly 20
  bytes.
\<close>

theorem String_ls_row:
  assumes "op u = ''ls''" and "package_rows w"
  shows "String w u
      = buildRow w (the_console w) (PrettyTable ''  '' [Field ''AccessKey'' 20]) [AccessKey u]
    \<and> String w u = Colorize (the_console w) ''AccessKey'' (AccessKey_cell (AccessKey u))
    \<and> accessFieldMaxLen = 20
    \<and> rune_count (AccessKey_cell (AccessKey u)) = 20
    \<and> (if length (AccessKey u) \<le> 20
        then AccessKey_cell (AccessKey u)
               = AccessKey u @ replicate (20 - rune_count (AccessKey u)) CHR '' ''
        else AccessKey_cell (AccessKey u)
               = take 17 (AccessKey u) @ ''...''
                 @ replicate (20 - rune_count (take 17 (AccessKey u) @ ''...'')) CHR '' '')
    \<and> (ascii (AccessKey u) \<longrightarrow> length (AccessKey_cell (AccessKey u)) = 20)
    \<and> (\<forall>v. op v = ''ls'' \<and> AccessKey v = AccessKey u \<longrightarrow> String w v = String w u)"
proof -
  have row: "String w v = Colorize (the_console w) ''AccessKey'' (AccessKey_cell (AccessKey v))"
    if "op v = ''ls''" for v
    using that assms(2)
    by (simp add: String_def package_rows_def buildRow_AccessKey_def)
  have call: "String w u
      = buildRow w (the_console w) (PrettyTable ''  '' [Field ''AccessKey'' 20]) [AccessKey u]"
    using assms(1) by (simp add: String_def newPrettyTable_def accessFieldMaxLen_def)
  have count: "rune_count (AccessKey_cell (AccessKey u)) = 20"
    using AccessKey_cell_short(2) [of "AccessKey u"] AccessKey_cell_long(2) [of "AccessKey u"]
    by (cases "length (AccessKey u) \<le> 20") simp_all
  have shape: "if length (AccessKey u) \<le> 20
        then AccessKey_cell (AccessKey u)
               = AccessKey u @ replicate (20 - rune_count (AccessKey u)) CHR '' ''
        else AccessKey_cell (AccessKey u)
               = take 17 (AccessKey u) @ ''...''
                 @ replicate (20 - rune_count (take 17 (AccessKey u) @ ''...'')) CHR '' ''"
    using AccessKey_cell_short(1) [of "AccessKey u"] AccessKey_cell_long(1) [of "AccessKey u"]
    by (cases "length (AccessKey u) \<le> 20") simp_all
  have bytes: "ascii (AccessKey u) \<longrightarrow> length (AccessKey_cell (AccessKey u)) = 20"
    by (simp add: AccessKey_cell_ascii)
  have alone: "\<forall>v. op v = ''ls'' \<and> AccessKey v = AccessKey u \<longrightarrow> String w v = String w u"
    using row assms(1) by simp
  from call row [OF assms(1)] count shape bytes alone show ?thesis
    by (simp add: accessFieldMaxLen_def)
qed

theorem String_ls_row_witness:
  "String listing_world (sample_message ''ls'') = ''foobar              ''
   \<and> String listing_world ((sample_message ''ls'')\<lparr>AccessKey := ''ABCDEFGHIJKLMNOPQRSTUVWXYZ''\<rparr>)
     = ''ABCDEFGHIJKLMNOPQ...''
   \<and> String listing_world
       ((sample_message ''ls'')\<lparr>SecretKey := ''other'', Policy := ''{}'', MemberOf := [''g'']\<rparr>)
     = String listing_world (sample_message ''ls'')"
proof -
  let ?long = "(sample_message ''ls'')\<lparr>AccessKey := ''ABCDEFGHIJKLMNOPQRSTUVWXYZ''\<rparr>"
  let ?v = "(sample_message ''ls'')\<lparr>SecretKey := ''other'', Policy := ''{}'', MemberOf := [''g'']\<rparr>"
  have tag: "op (sample_message ''ls'') = ''ls''" "op ?long = ''ls''"
    by (simp_all add: sample_message_def)
  have pkg: "package_rows listing_world"
    by (simp add: package_rows_def listing_world_def)
  have plain: "Colorize (the_console listing_world) ''AccessKey'' t = t" for t
    by (simp add: Colorize_def listing_world_def)
  have spaces: "replicate 14 CHR '' '' = ''              ''"
    by (simp add: eval_nat_numeral)
  have short: "rune_count ''foobar'' = 6"
    by (simp add: rune_size_def)
  have cut: "rune_count ''ABCDEFGHIJKLMNOPQ...'' = 20"
    by (simp add: rune_size_def)
  have same: "op ?v = ''ls'' \<and> AccessKey ?v = AccessKey (sample_message ''ls'')"
    by (simp add: sample_message_def)
  note one = String_ls_row [OF tag(1) pkg, THEN conjunct2]
  note two = String_ls_row [OF tag(2) pkg, THEN conjunct2]
  from one short spaces have 1: "String listing_world (sample_message ''ls'') = ''foobar              ''"
    by (simp add: plain sample_message_def)
  from two cut have 2: "String listing_world ?long = ''ABCDEFGHIJKLMNOPQ...''"
    by (simp add: plain sample_message_def)
  from one same have 3: "String listing_world ?v = String listing_world (sample_message ''ls'')"
    by blast
  from 1 2 3 show ?thesis by simp
qed

end
